theory Spec2Isabelle
  imports Main
begin

section \<open>Python values, exceptions and string helpers\<close>

text \<open>
  The middleware of \<^verbatim>\<open>standup/auth0/middleware.py\<close> handles values whose type is only
  known at run time: the parsed JSON body of the delegation response and the value
  stored under a cache key. They are modelled by \<open>pyval\<close>; a dictionary is an
  association list in insertion order whose keys are distinct, as a parsed JSON
  object is. Floating point numbers are left out.
\<close>

datatype pyval =
    PNone
  | PBool bool
  | PInt int
  | PStr string
  | PList "pyval list"
  | PDict "(string \<times> pyval) list"

text \<open>Python's truth value testing, used by \<^verbatim>\<open>bool(...)\<close> and \<^verbatim>\<open>if new_id_token\<close>.\<close>

fun truthy :: "pyval \<Rightarrow> bool" where
  "truthy PNone = False"
| "truthy (PBool b) = b"
| "truthy (PInt i) = (i \<noteq> 0)"
| "truthy (PStr s) = (s \<noteq> [])"
| "truthy (PList xs) = (xs \<noteq> [])"
| "truthy (PDict kvs) = (kvs \<noteq> [])"

text \<open>
  The exceptions that can travel through the middleware. \<open>ConnectTimeout\<close>,
  \<open>ReadTimeout\<close> and \<open>ConnectionError\<close> are the classes of \<^verbatim>\<open>requests.exceptions\<close>;
  \<open>ConnectionError\<close> stands for a connection failure that is not a timeout (refused
  connection, name resolution failure). Neither \<open>ConnectTimeout\<close> nor \<open>ReadTimeout\<close> has
  a subclass, so an \<^verbatim>\<open>except\<close> clause naming them is an equality test.
\<close>

datatype exn =
    ConnectTimeout
  | ReadTimeout
  | ConnectionError
  | JSONDecodeError
  | AttributeError
  | IndexError
  | DoesNotExist
  | OverflowError

text \<open>\<^verbatim>\<open>'%s' % n\<close> for an integer: its decimal digits.\<close>

fun str_nat :: "nat \<Rightarrow> string" where
  "str_nat n =
     (if n < 10 then [''0123456789'' ! n]
      else str_nat (n div 10) @ [''0123456789'' ! (n mod 10)])"

declare str_nat.simps [simp del]

definition str_int :: "int \<Rightarrow> string" where
  "str_int i = (if i < 0 then CHR ''-'' # str_nat (nat (- i)) else str_nat (nat i))"

text \<open>
  \<^verbatim>\<open>str.lower()\<close>. A character of a \<open>string\<close> stands for the code point of its number,
  so a string is a text of code points below 256 (Latin-1); texts with higher code points
  are outside the model. On these code points \<^verbatim>\<open>str.lower()\<close> maps every character to one
  character: the letters A to Z (65 to 90) and the capital letters with diacritics from
  U+00C0 to U+00DE (192 to 222), the multiplication sign U+00D7 (215) apart, move up by
  32; every other character stays.
\<close>

definition lower_char :: "char \<Rightarrow> char" where
  "lower_char c =
     (if (65 \<le> (of_char c :: nat) \<and> (of_char c :: nat) \<le> 90) \<or>
         (192 \<le> (of_char c :: nat) \<and> (of_char c :: nat) \<le> 222 \<and>
          (of_char c :: nat) \<noteq> 215)
      then char_of ((of_char c :: nat) + 32) else c)"

definition lower :: "string \<Rightarrow> string" where
  "lower s = map lower_char s"

text \<open>\<^verbatim>\<open>s.split(sep, 1)\<close> for a separator of one character: at most one split, at the
  first occurrence of the separator.\<close>

definition split1 :: "char \<Rightarrow> string \<Rightarrow> string list" where
  "split1 sep s =
     (case dropWhile (\<lambda>c. c \<noteq> sep) s of
        [] \<Rightarrow> [s]
      | _ # rest \<Rightarrow> [takeWhile (\<lambda>c. c \<noteq> sep) s, rest])"

text \<open>\<^verbatim>\<open>xs[i]\<close> for a non-negative index: out of range raises \<open>IndexError\<close>.\<close>

definition py_index :: "'a list \<Rightarrow> nat \<Rightarrow> exn + 'a" where
  "py_index xs i = (if i < length xs then Inr (xs ! i) else Inl IndexError)"

text \<open>\<^verbatim>\<open>result.get(key)\<close>: a dictionary answers \<open>None\<close> for a missing key; any other
  JSON value has no attribute \<^verbatim>\<open>get\<close>.\<close>

fun py_get :: "pyval \<Rightarrow> string \<Rightarrow> exn + pyval" where
  "py_get (PDict kvs) k = Inr (case map_of kvs k of None \<Rightarrow> PNone | Some v \<Rightarrow> v)"
| "py_get _ k = Inl AttributeError"


section \<open>Data model\<close>

text \<open>
  Modelled from the spec: the model class \<^verbatim>\<open>standup.auth0.models.IdToken\<close> is not part of
  the sources at hand. The spec's TokenRecord has an owning user, a token value and an
  expiration timestamp, with at most one record per user; the table is therefore a map
  from the user's identifier to the two remaining fields. Timestamps are counted in
  microseconds, the resolution of \<^verbatim>\<open>datetime\<close>.
\<close>

record IdToken =
  id_token :: pyval
  expire :: int

record user =
  user_id :: int
  username :: string
  is_active :: bool
  email :: string

record request =
  http_method :: string
  is_ajax :: bool
  user :: user
  path :: string

text \<open>
  Modelled from the spec: \<^verbatim>\<open>standup.auth0.settings.app_settings\<close> is not part of the
  sources at hand. The spec lists the configuration: provider domain, client identifier,
  network timeout, token renewal interval in seconds, sign-in view identifier, callback
  path and the eligible email domains. \<open>AUTH0_CALLBACK_PATH\<close> is the value of
  \<^verbatim>\<open>urlparse(app_settings.AUTH0_CALLBACK_URL).path\<close>.
\<close>

record settings =
  AUTH0_DOMAIN :: string
  AUTH0_CLIENT_ID :: string
  AUTH0_PATIENCE_TIMEOUT :: int
  AUTH0_CALLBACK_PATH :: string
  AUTH0_ID_TOKEN_DOMAINS :: "string list"
  AUTH0_ID_TOKEN_EXPIRY :: int
  AUTH0_SIGNIN_VIEW :: string

text \<open>The response of the identity provider: \<open>body_json\<close> is the parsed body, or \<open>None\<close>
  when the body is not JSON (a 502 page of a gateway, say).\<close>

record http_response =
  status_code :: int
  body_json :: "pyval option"

text \<open>
  What the middleware does not own: the provider behind \<^verbatim>\<open>requests.post\<close>, which answers a
  request after some time with an exception or a response, and the URL resolver
  \<^verbatim>\<open>reverse\<close>.
\<close>

record env =
  requests_post :: "string \<Rightarrow> pyval \<Rightarrow> int \<Rightarrow> nat \<times> (exn + http_response)"
  reverse :: "string \<Rightarrow> string"

text \<open>Every call that reaches a collaborator is recorded, in order.\<close>

datatype event =
    DbGet int
  | DbSave int IdToken
  | CacheGet string
  | CacheSet string pyval int
  | Post string pyval int
  | MessagesError string
  | Logout
  | LoggerDebug string

text \<open>
  The state a request runs in: the clock read by \<^verbatim>\<open>timezone.now()\<close>, the table of
  \<open>IdToken\<close> rows, the shared cache (a value and the time at which it stops being
  served) and the calls made so far.
\<close>

record world =
  now :: int
  tokens :: "int \<rightharpoonup> IdToken"
  cache :: "string \<rightharpoonup> pyval \<times> int"
  trace :: "event list"

datatype response = HttpResponseRedirect string

datatype strategy = ValidateIdToken | ValidateIdTokenUsingCache


section \<open>Collaborators\<close>

definition emit :: "event \<Rightarrow> world \<Rightarrow> world" where
  "emit e w = w\<lparr>trace := trace w @ [e]\<rparr>"

text \<open>
  Time. A timestamp is the number of microseconds since \<^verbatim>\<open>datetime.min\<close>, the start of
  year 1; \<^verbatim>\<open>datetime.max\<close>, the last microsecond of year 9999, is \<open>datetime_max\<close>. A
  duration is a number of microseconds; \<open>timedelta_seconds n\<close> is the length of \<open>n\<close>
  seconds.
\<close>

definition timedelta_seconds :: "int \<Rightarrow> int" where
  "timedelta_seconds n = n * 1000000"

definition datetime_max :: int where
  "datetime_max = 315537897599999999"

text \<open>\<^verbatim>\<open>timedelta(seconds=n)\<close>: a \<^verbatim>\<open>timedelta\<close> holds at most 999999999 days in either
  direction, and the constructor raises \<open>OverflowError\<close> beyond.\<close>

definition timedelta :: "int \<Rightarrow> exn + int" where
  "timedelta n =
     (if - 999999999 \<le> n div 86400 \<and> n div 86400 \<le> 999999999
      then Inr (timedelta_seconds n) else Inl OverflowError)"

text \<open>\<^verbatim>\<open>t + delta\<close> for a \<^verbatim>\<open>datetime\<close> and a \<^verbatim>\<open>timedelta\<close>: a sum outside the years 1 to
  9999 raises \<open>OverflowError\<close>.\<close>

definition datetime_add :: "int \<Rightarrow> int \<Rightarrow> exn + int" where
  "datetime_add t delta =
     (if 0 \<le> t + delta \<and> t + delta \<le> datetime_max
      then Inr (t + delta) else Inl OverflowError)"

text \<open>\<^verbatim>\<open>timezone.now() + timedelta(seconds=n)\<close>\<close>

definition now_plus_timedelta :: "world \<Rightarrow> int \<Rightarrow> exn + int" where
  "now_plus_timedelta w n =
     (case timedelta n of
        Inl e \<Rightarrow> Inl e
      | Inr delta \<Rightarrow> datetime_add (now w) delta)"

text \<open>\<^verbatim>\<open>IdToken.objects.get(user=u)\<close>\<close>

definition IdToken_objects_get :: "user \<Rightarrow> world \<Rightarrow> (exn + IdToken) \<times> world" where
  "IdToken_objects_get u w =
     ((case tokens w (user_id u) of None \<Rightarrow> Inl DoesNotExist | Some t \<Rightarrow> Inr t),
      emit (DbGet (user_id u)) w)"

text \<open>\<^verbatim>\<open>token.save()\<close> for the record of user \<open>u\<close>: one write of the whole row.\<close>

definition IdToken_save :: "user \<Rightarrow> IdToken \<Rightarrow> world \<Rightarrow> world" where
  "IdToken_save u t w = emit (DbSave (user_id u) t) (w\<lparr>tokens := (tokens w)(user_id u \<mapsto> t)\<rparr>)"

text \<open>
  The cache contract: \<^verbatim>\<open>cache.set(key, value, timeout)\<close> keeps the value for
  \<open>timeout\<close> seconds; \<^verbatim>\<open>cache.get(key)\<close> answers the value while the entry is live and
  \<open>None\<close> otherwise.
\<close>

definition cache_set :: "string \<Rightarrow> pyval \<Rightarrow> int \<Rightarrow> world \<Rightarrow> world" where
  "cache_set k v timeout w =
     emit (CacheSet k v timeout)
       (w\<lparr>cache := (cache w)(k \<mapsto> (v, now w + timedelta_seconds timeout))\<rparr>)"

definition cache_get :: "string \<Rightarrow> world \<Rightarrow> pyval \<times> world" where
  "cache_get k w =
     ((case cache w k of
         None \<Rightarrow> PNone
       | Some (v, expires) \<Rightarrow> if now w < expires then v else PNone),
      emit (CacheGet k) w)"

definition messages_error :: "string \<Rightarrow> world \<Rightarrow> world" where
  "messages_error text w = emit (MessagesError text) w"

definition logout :: "world \<Rightarrow> world" where
  "logout w = emit Logout w"

definition logger_debug :: "string \<Rightarrow> world \<Rightarrow> world" where
  "logger_debug text w = emit (LoggerDebug text) w"

definition response_json :: "http_response \<Rightarrow> exn + pyval" where
  "response_json r = (case body_json r of None \<Rightarrow> Inl JSONDecodeError | Some v \<Rightarrow> Inr v)"


section \<open>The middleware\<close>

definition delegation_url :: "settings \<Rightarrow> string" where
  "delegation_url cfg = ''https://'' @ AUTH0_DOMAIN cfg @ ''/delegation''"

definition delegation_body :: "settings \<Rightarrow> pyval \<Rightarrow> pyval" where
  "delegation_body cfg tok =
     PDict [(''client_id'', PStr (AUTH0_CLIENT_ID cfg)),
            (''api_type'', PStr ''app''),
            (''grant_type'', PStr ''urn:ietf:params:oauth:grant-type:jwt-bearer''),
            (''id_token'', tok)]"

definition renew_id_token ::
  "settings \<Rightarrow> env \<Rightarrow> pyval \<Rightarrow> world \<Rightarrow> (exn + pyval) \<times> world" where
  "renew_id_token cfg ev tok w =
     (let url = delegation_url cfg;
          body = delegation_body cfg tok;
          (elapsed, answer) = requests_post ev url body (AUTH0_PATIENCE_TIMEOUT cfg);
          w1 = (emit (Post url body (AUTH0_PATIENCE_TIMEOUT cfg)) w)\<lparr>now := now w + int elapsed\<rparr>
      in case answer of
           Inl e \<Rightarrow> (Inl e, w1)
         | Inr response \<Rightarrow>
             (case response_json response of
                Inl e \<Rightarrow> if e = JSONDecodeError then (Inr PNone, w1) else (Inl e, w1)
              | Inr result \<Rightarrow> (py_get result ''id_token'', w1)))"

definition cache_key :: "request \<Rightarrow> string" where
  "cache_key rq = ''auth0:renew_id_token:'' @ str_int (user_id (user rq))"

fun is_expired :: "strategy \<Rightarrow> request \<Rightarrow> world \<Rightarrow> (exn + bool) \<times> world" where
  "is_expired ValidateIdToken rq w =
     (case IdToken_objects_get (user rq) w of
        (Inl e, w1) \<Rightarrow> if e = DoesNotExist then (Inr True, w1) else (Inl e, w1)
      | (Inr token, w1) \<Rightarrow> (Inr (expire token < now w1), w1))"
| "is_expired ValidateIdTokenUsingCache rq w =
     (case cache_get (cache_key rq) w of (v, w1) \<Rightarrow> (Inr (truthy v), w1))"

fun update_expiration :: "settings \<Rightarrow> strategy \<Rightarrow> request \<Rightarrow> world \<Rightarrow> world" where
  "update_expiration cfg ValidateIdToken rq w = w"
| "update_expiration cfg ValidateIdTokenUsingCache rq w =
     cache_set (cache_key rq) (PBool True) (AUTH0_ID_TOKEN_EXPIRY cfg) w"

definition exception_paths :: "settings \<Rightarrow> string list" where
  "exception_paths cfg = [AUTH0_CALLBACK_PATH cfg]"

definition email_domain :: "string \<Rightarrow> exn + string" where
  "email_domain e = py_index (split1 (CHR ''@'') (lower e)) 1"

definition msg_wrong_provider :: string where
  "msg_wrong_provider =
     ''You can'' @ [CHR 0x27] @ ''t log in with that email address using the provider you '' @
     ''used. Please log in with the Mozilla LDAP provider.''"

definition msg_network_problem :: string where
  "msg_network_problem =
     ''Unable to validate your authentication with Auth0. This can happen when '' @
     ''there is temporary network problem. Please sign in again.''"

definition msg_expired_session :: string where
  "msg_expired_session =
     ''Unable to validate your authentication with Auth0. This is most likely due '' @
     ''to an expired authentication session. Please sign in again.''"

text \<open>The three failure exits share their last three statements: the message, the logout
  and the redirect to the sign-in view.\<close>

definition logout_and_redirect ::
  "settings \<Rightarrow> env \<Rightarrow> string \<Rightarrow> world \<Rightarrow> (exn + response option) \<times> world" where
  "logout_and_redirect cfg ev text w =
     (Inr (Some (HttpResponseRedirect (reverse ev (AUTH0_SIGNIN_VIEW cfg)))),
      logout (messages_error text w))"

definition process_request ::
  "settings \<Rightarrow> env \<Rightarrow> strategy \<Rightarrow> request \<Rightarrow> world \<Rightarrow> (exn + response option) \<times> world" where
  "process_request cfg ev self rq w =
     (if http_method rq \<noteq> ''POST'' \<and> \<not> is_ajax rq \<and> is_active (user rq) \<and>
         email (user rq) \<noteq> [] \<and> path rq \<notin> set (exception_paths cfg)
      then
        (case email_domain (email (user rq)) of
           Inl e \<Rightarrow> (Inl e, w)
         | Inr domain \<Rightarrow>
             if domain \<notin> set (AUTH0_ID_TOKEN_DOMAINS cfg) then (Inr None, w)
             else
               (case is_expired self rq w of
                  (Inl e, w1) \<Rightarrow> (Inl e, w1)
                | (Inr expired, w1) \<Rightarrow>
                    if \<not> expired then (Inr None, w1)
                    else
                      (case IdToken_objects_get (user rq) w1 of
                         (Inl e, w2) \<Rightarrow>
                           if e = DoesNotExist
                           then logout_and_redirect cfg ev msg_wrong_provider w2
                           else (Inl e, w2)
                       | (Inr token, w2) \<Rightarrow>
                           (case renew_id_token cfg ev (id_token token) w2 of
                              (Inl e, w3) \<Rightarrow>
                                if e = ConnectTimeout \<or> e = ReadTimeout
                                then logout_and_redirect cfg ev msg_network_problem w3
                                else (Inl e, w3)
                            | (Inr new_id_token, w3) \<Rightarrow>
                                if truthy new_id_token
                                then
                                  (case now_plus_timedelta w3 (AUTH0_ID_TOKEN_EXPIRY cfg) of
                                     Inl e \<Rightarrow> (Inl e, w3)
                                   | Inr expire' \<Rightarrow>
                                       (let token' = token
                                              \<lparr>id_token := new_id_token, expire := expire'\<rparr>;
                                            w4 = IdToken_save (user rq) token' w3;
                                            w5 = update_expiration cfg self rq w4;
                                            w6 = logger_debug
                                                   (''ValidateIdToken: token renewed for '' @
                                                    username (user rq)) w5
                                        in (Inr None, w6)))
                                else logout_and_redirect cfg ev msg_expired_session w3))))
      else (Inr None, w))"


section \<open>Sample requests, states and providers\<close>

definition example_settings :: settings where
  "example_settings =
     \<lparr>AUTH0_DOMAIN = ''auth.example.com'', AUTH0_CLIENT_ID = ''client'',
      AUTH0_PATIENCE_TIMEOUT = 5, AUTH0_CALLBACK_PATH = ''/auth/callback/'',
      AUTH0_ID_TOKEN_DOMAINS = [''mozilla.com''], AUTH0_ID_TOKEN_EXPIRY = 900,
      AUTH0_SIGNIN_VIEW = ''auth0.signin''\<rparr>"

definition example_user :: user where
  "example_user =
     \<lparr>user_id = 7, username = ''ann'', is_active = True, email = ''ann@mozilla.com''\<rparr>"

definition example_request :: request where
  "example_request =
     \<lparr>http_method = ''GET'', is_ajax = False, user = example_user, path = ''/''\<rparr>"

definition callback_request :: request where
  "callback_request = example_request\<lparr>path := ''/auth/callback/''\<rparr>"

definition outsider_request :: request where
  "outsider_request = example_request\<lparr>user := example_user\<lparr>email := ''bob@example.org''\<rparr>\<rparr>"

definition no_domain_request :: request where
  "no_domain_request = example_request\<lparr>user := example_user\<lparr>email := ''nobody''\<rparr>\<rparr>"

definition old_token :: IdToken where
  "old_token = \<lparr>id_token = PStr ''old'', expire = 1000000000\<rparr>"

text \<open>Three states: the record of user 7 has expired, is still valid, or does not exist.\<close>

definition world_expired :: world where
  "world_expired =
     \<lparr>now = 2000000000, tokens = [7 \<mapsto> old_token], cache = Map.empty, trace = []\<rparr>"

definition world_valid :: world where
  "world_valid =
     \<lparr>now = 500000000, tokens = [7 \<mapsto> old_token], cache = Map.empty, trace = []\<rparr>"

definition world_no_record :: world where
  "world_no_record =
     \<lparr>now = 2000000000, tokens = Map.empty, cache = Map.empty, trace = []\<rparr>"

text \<open>A state on 1 January 2024 with the record of user 7 expired, and settings whose
  renewal interval, 300000000000 seconds, reaches beyond the year 9999.\<close>

definition token_2023 :: IdToken where
  "token_2023 = \<lparr>id_token = PStr ''old'', expire = 63839000000000000\<rparr>"

definition world_2024 :: world where
  "world_2024 =
     \<lparr>now = 63839664000000000, tokens = [7 \<mapsto> token_2023], cache = Map.empty,
      trace = []\<rparr>"

definition long_interval_settings :: settings where
  "long_interval_settings = example_settings\<lparr>AUTH0_ID_TOKEN_EXPIRY := 300000000000\<rparr>"

definition signin_url :: "string \<Rightarrow> string" where
  "signin_url view = ''/signin/''"

text \<open>A provider that gives the same answer to every request, after \<open>elapsed\<close> microseconds.\<close>

definition env_answering :: "nat \<Rightarrow> exn + http_response \<Rightarrow> env" where
  "env_answering elapsed answer =
     \<lparr>requests_post = (\<lambda>url body timeout. (elapsed, answer)), reverse = signin_url\<rparr>"

definition renewed_response :: http_response where
  "renewed_response =
     \<lparr>status_code = 200, body_json = Some (PDict [(''id_token'', PStr ''new'')])\<rparr>"

definition bad_gateway_response :: http_response where
  "bad_gateway_response = \<lparr>status_code = 502, body_json = None\<rparr>"

lemmas example_defs =
  example_settings_def example_user_def example_request_def callback_request_def
  outsider_request_def no_domain_request_def old_token_def world_expired_def
  world_valid_def world_no_record_def env_answering_def signin_url_def
  token_2023_def world_2024_def long_interval_settings_def
  renewed_response_def bad_gateway_response_def


section \<open>Auxiliary facts\<close>

text \<open>Asking the oracle never changes the table of records, whichever strategy answers.\<close>

lemma is_expired_tokens [simp]: "tokens (snd (is_expired self rq w)) = tokens w"
  by (cases self)
     (simp_all add: IdToken_objects_get_def cache_get_def emit_def split: option.splits)

text \<open>What the cached oracle computes from the cache, for every request and state.\<close>

lemma is_expired_cached_value:
  "fst (is_expired ValidateIdTokenUsingCache rq w) =
     Inr (case cache w (cache_key rq) of
            None \<Rightarrow> False
          | Some (v, expires) \<Rightarrow> now w < expires \<and> truthy v)"
  by (simp add: cache_get_def split: option.splits)

text \<open>Lowering a character neither creates nor removes the sign that separates the domain.\<close>

lemma lower_char_at: "lower_char c = CHR ''@'' \<longleftrightarrow> c = CHR ''@''"
proof (cases "(65 \<le> (of_char c :: nat) \<and> (of_char c :: nat) \<le> 90) \<or>
    (192 \<le> (of_char c :: nat) \<and> (of_char c :: nat) \<le> 222 \<and> (of_char c :: nat) \<noteq> 215)")
  case True
  then have "of_char (lower_char c) = (of_char c :: nat) + 32"
    by (auto simp: lower_char_def)
  moreover have "(of_char (CHR ''@'') :: nat) = 64"
    by simp
  ultimately show ?thesis
    using True by auto
next
  case False
  then show ?thesis
    by (auto simp: lower_char_def)
qed

text \<open>A capital letter with a diacritic is lowered: U+00C0 becomes U+00E0.\<close>

lemma lower_latin1_capital: "lower [CHR 0xC0] = [CHR 0xE0]"
  by code_simp

lemma email_domain_latin1_capital:
  "email_domain (''ann@MOZILL'' @ [CHR 0xC0] @ ''.COM'') =
     Inr (''mozill'' @ [CHR 0xE0] @ ''.com'')"
  by code_simp

lemma set_lower_at: "CHR ''@'' \<in> set (lower s) \<longleftrightarrow> CHR ''@'' \<in> set s"
proof (induction s)
  case Nil
  show ?case by (simp add: lower_def)
next
  case (Cons c s)
  have "CHR ''@'' = lower_char c \<longleftrightarrow> CHR ''@'' = c"
    using lower_char_at [of c] by auto
  with Cons show ?case by (simp add: lower_def)
qed

lemma split1_no_sep: "sep \<notin> set s \<Longrightarrow> split1 sep s = [s]"
proof -
  assume "sep \<notin> set s"
  then have "dropWhile (\<lambda>c. c \<noteq> sep) s = []"
    by auto
  then show ?thesis
    unfolding split1_def by (simp only: list.case)
qed

lemma email_domain_no_at: "CHR ''@'' \<notin> set e \<Longrightarrow> email_domain e = Inl IndexError"
  by (simp add: email_domain_def split1_no_sep set_lower_at py_index_def)

text \<open>The wording of the three messages.\<close>

lemma msg_network_problem_mentions:
  "\<exists>a b. msg_network_problem = a @ ''temporary network problem'' @ b"
  unfolding msg_network_problem_def
  by (rule exI [of _ "''Unable to validate your authentication with Auth0. This can happen when there is ''"],
      rule exI [of _ "''. Please sign in again.''"]) simp

lemma msg_expired_session_mentions:
  "\<exists>a b. msg_expired_session = a @ ''expired authentication session'' @ b"
  unfolding msg_expired_session_def
  by (rule exI [of _ "''Unable to validate your authentication with Auth0. This is most likely due to an ''"],
      rule exI [of _ "''. Please sign in again.''"]) simp

lemma msg_wrong_provider_mentions:
  "\<exists>a b. msg_wrong_provider = a @ ''Please log in with the Mozilla LDAP provider'' @ b"
  unfolding msg_wrong_provider_def
  by (rule exI [of _ "''You can'' @ [CHR 0x27] @ ''t log in with that email address using the provider you used. ''"],
      rule exI [of _ "''.''"]) simp

lemma msg_wrong_provider_distinct:
  "msg_wrong_provider \<noteq> msg_network_problem \<and> msg_wrong_provider \<noteq> msg_expired_session"
  by (simp add: msg_wrong_provider_def msg_network_problem_def msg_expired_session_def)

text \<open>The sample request passes the gate, and the direct oracle finds its record expired.\<close>

lemma example_gate:
  "http_method example_request \<noteq> ''POST''" "\<not> is_ajax example_request"
  "is_active (user example_request)" "email (user example_request) \<noteq> []"
  "path example_request \<noteq> AUTH0_CALLBACK_PATH example_settings"
  by (simp_all add: example_defs)

lemma example_domain: "email_domain (email (user example_request)) = Inr ''mozilla.com''"
  by (simp add: example_defs email_domain_def py_index_def split1_def lower_def lower_char_def)

lemma example_domain_listed: "''mozilla.com'' \<in> set (AUTH0_ID_TOKEN_DOMAINS example_settings)"
  by (simp add: example_defs)

lemma example_expired:
  "fst (is_expired ValidateIdToken example_request world_expired) = Inr True"
  by (simp add: example_defs IdToken_objects_get_def emit_def)

lemma example_stored: "tokens world_expired (user_id (user example_request)) = Some old_token"
  by (simp add: example_defs)

lemma example_post:
  "requests_post (env_answering elapsed answer) url body timeout = (elapsed, answer)"
  by (simp add: env_answering_def)

lemma example_renewed:
  "renew_id_token cfg (env_answering elapsed (Inr renewed_response)) tok w =
     (Inr (PStr ''new''),
      (emit (Post (delegation_url cfg) (delegation_body cfg tok)
         (AUTH0_PATIENCE_TIMEOUT cfg)) w)\<lparr>now := now w + int elapsed\<rparr>)"
  by (simp add: renew_id_token_def example_post response_json_def renewed_response_def)

text \<open>When line 150 yields a timestamp: both range checks pass and the value is the sum.\<close>

lemma now_plus_timedelta_Inr:
  "now_plus_timedelta w n = Inr t \<longleftrightarrow>
     - 999999999 \<le> n div 86400 \<and> n div 86400 \<le> 999999999 \<and>
     0 \<le> now w + n * 1000000 \<and> now w + n * 1000000 \<le> datetime_max \<and>
     t = now w + n * 1000000"
  by (auto simp: now_plus_timedelta_def timedelta_def datetime_add_def timedelta_seconds_def)

lemma now_plus_timedelta_Inl:
  "now_plus_timedelta w n = Inl e \<Longrightarrow> e = OverflowError"
  by (auto simp: now_plus_timedelta_def timedelta_def datetime_add_def split: if_splits)

text \<open>The sample request in the state of 2024, under the settings with the long interval.\<close>

lemma long_interval_gate:
  "path example_request \<noteq> AUTH0_CALLBACK_PATH long_interval_settings"
  "''mozilla.com'' \<in> set (AUTH0_ID_TOKEN_DOMAINS long_interval_settings)"
  by (simp_all add: example_defs)

lemma expired_2024:
  "is_expired ValidateIdToken example_request world_2024 =
     (Inr True, world_2024\<lparr>trace := [DbGet 7]\<rparr>)"
  by (simp add: example_defs IdToken_objects_get_def emit_def)

lemma stored_2024: "tokens world_2024 (user_id (user example_request)) = Some token_2023"
  by (simp add: example_defs)

lemma example_reverse:
  "reverse (env_answering elapsed answer) (AUTH0_SIGNIN_VIEW example_settings) = ''/signin/''"
  by (simp add: env_answering_def signin_url_def)


section \<open>The expiration oracle\<close>

text \<open>
  C1. The cached strategy right after \<open>update_expiration\<close> has written the cache entry of a
  user, and again once the renewal interval has elapsed. The spec expects the answer
  "not expired" first and "expired" after the interval. The method returns
  \<^verbatim>\<open>bool(cache.get(cache_key))\<close>, the truth value of the entry itself: for user 7 and an
  interval of 900 seconds it answers "expired" while the entry is live and "not expired"
  once the interval has elapsed.
\<close>

theorem cached_is_expired_after_update_expiration:
  "fst (is_expired ValidateIdTokenUsingCache example_request
          (update_expiration example_settings ValidateIdTokenUsingCache example_request
             world_expired)) = Inr True \<and>
   fst (is_expired ValidateIdTokenUsingCache example_request
          ((update_expiration example_settings ValidateIdTokenUsingCache example_request
              world_expired)
             \<lparr>now := now world_expired +
                timedelta_seconds (AUTH0_ID_TOKEN_EXPIRY example_settings)\<rparr>)) = Inr False"
  by (simp add: example_defs cache_get_def cache_set_def emit_def timedelta_seconds_def)

text \<open>
  C2. The cached strategy for a user without a live cache entry. The spec expects "expired"
  whenever the entry is absent or stale and "not expired" only for a live entry. The
  method answers "not expired" for user 7 when the cache is empty and when the entry went
  stale a second ago, and "expired" when the entry is live.
\<close>

theorem cached_is_expired_without_live_entry:
  "cache world_expired (cache_key example_request) = None \<and>
   fst (is_expired ValidateIdTokenUsingCache example_request world_expired) = Inr False \<and>
   fst (is_expired ValidateIdTokenUsingCache example_request
          (world_expired\<lparr>cache := [cache_key example_request \<mapsto>
             (PBool True, now world_expired - 1000000)]\<rparr>)) = Inr False \<and>
   fst (is_expired ValidateIdTokenUsingCache example_request
          (world_expired\<lparr>cache := [cache_key example_request \<mapsto>
             (PBool True, now world_expired + 1000000)]\<rparr>)) = Inr True"
  by (simp add: example_defs cache_get_def emit_def)

text \<open>
  C5. The direct strategy: a user without a record is expired; a user whose record
  expires strictly before now is expired; a user whose record expires after now is not.
\<close>

theorem direct_is_expired:
  "(tokens w (user_id (user rq)) = None \<longrightarrow>
      fst (is_expired ValidateIdToken rq w) = Inr True) \<and>
   (\<forall>t. tokens w (user_id (user rq)) = Some t \<and> expire t < now w \<longrightarrow>
      fst (is_expired ValidateIdToken rq w) = Inr True) \<and>
   (\<forall>t. tokens w (user_id (user rq)) = Some t \<and> now w < expire t \<longrightarrow>
      fst (is_expired ValidateIdToken rq w) = Inr False)"
  by (simp add: IdToken_objects_get_def emit_def)

theorem direct_is_expired_witness:
  "tokens world_no_record (user_id (user example_request)) = None \<and>
   fst (is_expired ValidateIdToken example_request world_no_record) = Inr True \<and>
   tokens world_expired (user_id (user example_request)) = Some old_token \<and>
   expire old_token < now world_expired \<and>
   fst (is_expired ValidateIdToken example_request world_expired) = Inr True \<and>
   tokens world_valid (user_id (user example_request)) = Some old_token \<and>
   now world_valid < expire old_token \<and>
   fst (is_expired ValidateIdToken example_request world_valid) = Inr False"
proof -
  have a: "tokens world_no_record (user_id (user example_request)) = None"
    by (simp add: example_defs)
  have b: "tokens world_expired (user_id (user example_request)) = Some old_token"
    "expire old_token < now world_expired"
    by (simp_all add: example_defs)
  have c: "tokens world_valid (user_id (user example_request)) = Some old_token"
    "now world_valid < expire old_token"
    by (simp_all add: example_defs)
  have "fst (is_expired ValidateIdToken example_request world_no_record) = Inr True"
    using direct_is_expired [where w = world_no_record and rq = example_request] a by blast
  moreover have "fst (is_expired ValidateIdToken example_request world_expired) = Inr True"
    using direct_is_expired [where w = world_expired and rq = example_request] b by blast
  moreover have "fst (is_expired ValidateIdToken example_request world_valid) = Inr False"
    using direct_is_expired [where w = world_valid and rq = example_request] c by blast
  ultimately show ?thesis
    using a b c by blast
qed


section \<open>The eligibility gate\<close>

text \<open>
  C8. A request whose path is the callback path of the identity provider returns at once,
  whatever the state of the user's token: no oracle query, no renewal, and the state,
  the record of calls included, is the one it started from.
\<close>

theorem callback_path_is_skipped:
  assumes "path rq = AUTH0_CALLBACK_PATH cfg"
  shows "process_request cfg ev self rq w = (Inr None, w)"
  using assms by (simp add: process_request_def exception_paths_def)

theorem callback_path_is_skipped_witness:
  "path callback_request = AUTH0_CALLBACK_PATH example_settings \<and>
   process_request example_settings (env_answering 0 (Inr renewed_response))
     ValidateIdToken callback_request world_expired = (Inr None, world_expired)"
proof -
  have p: "path callback_request = AUTH0_CALLBACK_PATH example_settings"
    by (simp add: example_defs)
  show ?thesis
    using p callback_path_is_skipped [OF p] by blast
qed

text \<open>
  C9. A request of a user whose email domain is not in the list of domains returns
  without any effect: no oracle query, no read or write of the record, no renewal call,
  no logout, no message and no redirect.
\<close>

theorem other_domain_is_skipped:
  assumes "email_domain (email (user rq)) = Inr d"
    and "d \<notin> set (AUTH0_ID_TOKEN_DOMAINS cfg)"
  shows "process_request cfg ev self rq w = (Inr None, w)"
  using assms by (simp add: process_request_def)

theorem other_domain_is_skipped_witness:
  "email_domain (email (user outsider_request)) = Inr ''example.org'' \<and>
   ''example.org'' \<notin> set (AUTH0_ID_TOKEN_DOMAINS example_settings) \<and>
   process_request example_settings (env_answering 0 (Inr renewed_response))
     ValidateIdToken outsider_request world_expired = (Inr None, world_expired)"
proof -
  have d: "email_domain (email (user outsider_request)) = Inr ''example.org''"
    by (simp add: example_defs email_domain_def py_index_def split1_def lower_def
        lower_char_def)
  have n: "''example.org'' \<notin> set (AUTH0_ID_TOKEN_DOMAINS example_settings)"
    by (simp add: example_defs)
  show ?thesis
    using d n other_domain_is_skipped [OF d n] by blast
qed

text \<open>
  C10. A request that passes the first conditions of the gate (not a POST, not AJAX, an
  active user, a non-empty email, a path other than the callback path) and whose email
  holds no \<open>@\<close> raises \<open>IndexError\<close> while the domain is taken, before anything else is done.
\<close>

theorem email_without_at_raises:
  assumes "http_method rq \<noteq> ''POST''" and "\<not> is_ajax rq" and "is_active (user rq)"
    and "email (user rq) \<noteq> []" and "path rq \<noteq> AUTH0_CALLBACK_PATH cfg"
    and "CHR ''@'' \<notin> set (email (user rq))"
  shows "process_request cfg ev self rq w = (Inl IndexError, w)"
  using assms by (simp add: process_request_def exception_paths_def email_domain_no_at)

theorem email_without_at_raises_witness:
  "http_method no_domain_request \<noteq> ''POST'' \<and> \<not> is_ajax no_domain_request \<and>
   is_active (user no_domain_request) \<and> email (user no_domain_request) \<noteq> [] \<and>
   path no_domain_request \<noteq> AUTH0_CALLBACK_PATH example_settings \<and>
   CHR ''@'' \<notin> set (email (user no_domain_request)) \<and>
   process_request example_settings (env_answering 0 (Inr renewed_response))
     ValidateIdToken no_domain_request world_expired = (Inl IndexError, world_expired)"
proof -
  have h: "http_method no_domain_request \<noteq> ''POST''" "\<not> is_ajax no_domain_request"
    "is_active (user no_domain_request)" "email (user no_domain_request) \<noteq> []"
    "path no_domain_request \<noteq> AUTH0_CALLBACK_PATH example_settings"
    "CHR ''@'' \<notin> set (email (user no_domain_request))"
    by (simp_all add: example_defs)
  show ?thesis
    using h email_without_at_raises [OF h] by blast
qed


section \<open>Renewal and the failure exits\<close>

text \<open>
  C6. An eligible request for which the oracle answers "expired" while the user has no
  record: the middleware reads the table once more, puts up the message that sends the
  user to the right provider ("Please log in with the Mozilla LDAP provider"), a message
  different from the other two, logs the user out and answers with a redirect to the
  sign-in view. Nothing else is called.
\<close>

theorem missing_record_logs_out:
  assumes gate: "http_method rq \<noteq> ''POST''" "\<not> is_ajax rq" "is_active (user rq)"
      "email (user rq) \<noteq> []" "path rq \<noteq> AUTH0_CALLBACK_PATH cfg"
    and dom: "email_domain (email (user rq)) = Inr d" "d \<in> set (AUTH0_ID_TOKEN_DOMAINS cfg)"
    and expired: "fst (is_expired self rq w) = Inr True"
    and absent: "tokens w (user_id (user rq)) = None"
  shows "process_request cfg ev self rq w =
           (Inr (Some (HttpResponseRedirect (reverse ev (AUTH0_SIGNIN_VIEW cfg)))),
            (snd (is_expired self rq w))
              \<lparr>trace := trace (snd (is_expired self rq w)) @
                 [DbGet (user_id (user rq)), MessagesError msg_wrong_provider, Logout]\<rparr>) \<and>
         (\<exists>a b. msg_wrong_provider =
            a @ ''Please log in with the Mozilla LDAP provider'' @ b) \<and>
         msg_wrong_provider \<noteq> msg_network_problem \<and>
         msg_wrong_provider \<noteq> msg_expired_session"
proof -
  obtain w1 where ie: "is_expired self rq w = (Inr True, w1)"
    using expired by (cases "is_expired self rq w") simp
  have t1: "tokens w1 (user_id (user rq)) = None"
    using is_expired_tokens [of self rq w] ie absent by simp
  have "process_request cfg ev self rq w =
           (Inr (Some (HttpResponseRedirect (reverse ev (AUTH0_SIGNIN_VIEW cfg)))),
            (snd (is_expired self rq w))
              \<lparr>trace := trace (snd (is_expired self rq w)) @
                 [DbGet (user_id (user rq)), MessagesError msg_wrong_provider, Logout]\<rparr>)"
    using gate dom ie t1
    by (simp add: process_request_def exception_paths_def IdToken_objects_get_def
        logout_and_redirect_def logout_def messages_error_def emit_def)
  then show ?thesis
    using msg_wrong_provider_mentions msg_wrong_provider_distinct by blast
qed

theorem missing_record_logs_out_witness:
  "http_method example_request \<noteq> ''POST'' \<and> \<not> is_ajax example_request \<and>
   is_active (user example_request) \<and> email (user example_request) \<noteq> [] \<and>
   path example_request \<noteq> AUTH0_CALLBACK_PATH example_settings \<and>
   email_domain (email (user example_request)) = Inr ''mozilla.com'' \<and>
   ''mozilla.com'' \<in> set (AUTH0_ID_TOKEN_DOMAINS example_settings) \<and>
   fst (is_expired ValidateIdToken example_request world_no_record) = Inr True \<and>
   tokens world_no_record (user_id (user example_request)) = None \<and>
   process_request example_settings (env_answering 0 (Inr renewed_response))
     ValidateIdToken example_request world_no_record =
     (Inr (Some (HttpResponseRedirect ''/signin/'')),
      world_no_record
        \<lparr>trace := [DbGet 7, DbGet 7, MessagesError msg_wrong_provider, Logout]\<rparr>) \<and>
   (\<exists>a b. msg_wrong_provider = a @ ''Please log in with the Mozilla LDAP provider'' @ b)"
proof -
  let ?ev = "env_answering 0 (Inr renewed_response)"
  have x: "is_expired ValidateIdToken example_request world_no_record =
      (Inr True, world_no_record\<lparr>trace := [DbGet 7]\<rparr>)"
    by (simp add: example_defs IdToken_objects_get_def emit_def)
  have x1: "fst (is_expired ValidateIdToken example_request world_no_record) = Inr True"
    using x by (simp only: fst_conv)
  have x2: "snd (is_expired ValidateIdToken example_request world_no_record) =
      world_no_record\<lparr>trace := [DbGet 7]\<rparr>"
    using x by (simp only: snd_conv)
  have a: "tokens world_no_record (user_id (user example_request)) = None"
    by (simp add: example_defs)
  have u: "user_id (user example_request) = 7"
    by (simp add: example_request_def example_user_def)
  note m = missing_record_logs_out [OF example_gate example_domain example_domain_listed
      x1 a, of ?ev, unfolded x2 example_reverse u]
  from m have "process_request example_settings ?ev ValidateIdToken example_request
      world_no_record =
     (Inr (Some (HttpResponseRedirect ''/signin/'')),
      world_no_record
        \<lparr>trace := [DbGet 7, DbGet 7, MessagesError msg_wrong_provider, Logout]\<rparr>)"
    by simp
  moreover from m
  have "\<exists>a b. msg_wrong_provider = a @ ''Please log in with the Mozilla LDAP provider'' @ b"
    by blast
  ultimately show ?thesis
    using example_gate example_domain example_domain_listed x1 a by blast
qed

text \<open>
  C3, as the code has it. For an eligible request whose token the oracle reports expired
  and whose record exists: when \<^verbatim>\<open>requests.post\<close> raises \<open>ConnectTimeout\<close> or
  \<open>ReadTimeout\<close>, the middleware puts up the message about a temporary network problem,
  logs the user out and answers with a redirect to the sign-in view; the record is not
  written. Any other exception of the call is not caught and leaves \<open>process_request\<close>.
\<close>

theorem renewal_timeout_logs_out:
  assumes gate: "http_method rq \<noteq> ''POST''" "\<not> is_ajax rq" "is_active (user rq)"
      "email (user rq) \<noteq> []" "path rq \<noteq> AUTH0_CALLBACK_PATH cfg"
    and dom: "email_domain (email (user rq)) = Inr d" "d \<in> set (AUTH0_ID_TOKEN_DOMAINS cfg)"
    and expired: "fst (is_expired self rq w) = Inr True"
    and stored: "tokens w (user_id (user rq)) = Some token"
    and post: "requests_post ev (delegation_url cfg) (delegation_body cfg (id_token token))
                 (AUTH0_PATIENCE_TIMEOUT cfg) = (elapsed, Inl e)"
  shows "(e = ConnectTimeout \<or> e = ReadTimeout \<longrightarrow>
            process_request cfg ev self rq w =
              (Inr (Some (HttpResponseRedirect (reverse ev (AUTH0_SIGNIN_VIEW cfg)))),
               (snd (is_expired self rq w))
                 \<lparr>now := now (snd (is_expired self rq w)) + int elapsed,
                  trace := trace (snd (is_expired self rq w)) @
                    [DbGet (user_id (user rq)),
                     Post (delegation_url cfg) (delegation_body cfg (id_token token))
                       (AUTH0_PATIENCE_TIMEOUT cfg),
                     MessagesError msg_network_problem, Logout]\<rparr>)) \<and>
         (e \<noteq> ConnectTimeout \<and> e \<noteq> ReadTimeout \<longrightarrow>
            fst (process_request cfg ev self rq w) = Inl e) \<and>
         (\<exists>a b. msg_network_problem = a @ ''temporary network problem'' @ b)"
proof -
  obtain w1 where ie: "is_expired self rq w = (Inr True, w1)"
    using expired by (cases "is_expired self rq w") simp
  have t1: "tokens w1 (user_id (user rq)) = Some token"
    using is_expired_tokens [of self rq w] ie stored by simp
  show ?thesis
    using gate dom ie t1 post msg_network_problem_mentions
    by (simp add: process_request_def exception_paths_def IdToken_objects_get_def
        renew_id_token_def logout_and_redirect_def logout_def messages_error_def emit_def)
qed

theorem renewal_timeout_logs_out_witness:
  "http_method example_request \<noteq> ''POST'' \<and> \<not> is_ajax example_request \<and>
   is_active (user example_request) \<and> email (user example_request) \<noteq> [] \<and>
   path example_request \<noteq> AUTH0_CALLBACK_PATH example_settings \<and>
   email_domain (email (user example_request)) = Inr ''mozilla.com'' \<and>
   ''mozilla.com'' \<in> set (AUTH0_ID_TOKEN_DOMAINS example_settings) \<and>
   fst (is_expired ValidateIdToken example_request world_expired) = Inr True \<and>
   tokens world_expired (user_id (user example_request)) = Some old_token \<and>
   requests_post (env_answering 5000000 (Inl ReadTimeout)) (delegation_url example_settings)
     (delegation_body example_settings (id_token old_token))
     (AUTH0_PATIENCE_TIMEOUT example_settings) = (5000000, Inl ReadTimeout) \<and>
   fst (process_request example_settings (env_answering 5000000 (Inl ReadTimeout))
          ValidateIdToken example_request world_expired) =
     Inr (Some (HttpResponseRedirect ''/signin/'')) \<and>
   requests_post (env_answering 1000 (Inl ConnectionError)) (delegation_url example_settings)
     (delegation_body example_settings (id_token old_token))
     (AUTH0_PATIENCE_TIMEOUT example_settings) = (1000, Inl ConnectionError) \<and>
   fst (process_request example_settings (env_answering 1000 (Inl ConnectionError))
          ValidateIdToken example_request world_expired) = Inl ConnectionError"
proof -
  let ?slow = "env_answering 5000000 (Inl ReadTimeout)"
  let ?broken = "env_answering 1000 (Inl ConnectionError)"
  note slow = renewal_timeout_logs_out [OF example_gate example_domain example_domain_listed
      example_expired example_stored example_post [of 5000000 "Inl ReadTimeout"]]
  note broken = renewal_timeout_logs_out [OF example_gate example_domain
      example_domain_listed example_expired example_stored
      example_post [of 1000 "Inl ConnectionError"]]
  have "fst (process_request example_settings ?slow ValidateIdToken example_request
          world_expired) = Inr (Some (HttpResponseRedirect ''/signin/''))"
    using slow by (simp add: example_reverse)
  moreover have "fst (process_request example_settings ?broken ValidateIdToken
      example_request world_expired) = Inl ConnectionError"
    using broken by simp
  ultimately show ?thesis
    using example_gate example_domain example_domain_listed example_expired example_stored
      example_post [of 5000000 "Inl ReadTimeout"] example_post [of 1000 "Inl ConnectionError"]
    by blast
qed

text \<open>
  C3, as the spec states it, fails where the call cannot connect without timing out. With
  a provider that refuses the connection (\<open>ConnectionError\<close> of \<^verbatim>\<open>requests\<close>) the sample
  request, whose token has expired and whose record exists, ends in that exception: no
  logout, no message, no redirect.
\<close>

theorem refused_connection_propagates:
  "process_request example_settings (env_answering 2000 (Inl ConnectionError))
     ValidateIdToken example_request world_expired =
     (Inl ConnectionError,
      world_expired
        \<lparr>now := 2000002000,
         trace := [DbGet 7, DbGet 7,
           Post ''https://auth.example.com/delegation''
             (delegation_body example_settings (PStr ''old'')) 5]\<rparr>)"
  by (simp add: process_request_def exception_paths_def example_domain)
     (simp add: example_defs IdToken_objects_get_def emit_def renew_id_token_def
        delegation_url_def)

text \<open>
  C4, as the code has it. An eligible request whose token the oracle reports expired,
  whose record exists and whose renewal returns a new token value (a value that
  \<^verbatim>\<open>if new_id_token\<close> accepts). When now plus the renewal interval is a timestamp that
  \<^verbatim>\<open>datetime\<close> can hold, the record gets the new value and that expiration in one save,
  the oracle's \<open>update_expiration\<close> is called, the renewal is logged, and the request goes
  on without a redirect; the calls after the renewal are exactly the save, the cache
  write of the cached strategy, and the log line. When the sum cannot be held, line 150
  raises \<open>OverflowError\<close>, which leaves \<open>process_request\<close> with nothing saved.
\<close>

theorem renewal_success_saves_token:
  assumes gate: "http_method rq \<noteq> ''POST''" "\<not> is_ajax rq" "is_active (user rq)"
      "email (user rq) \<noteq> []" "path rq \<noteq> AUTH0_CALLBACK_PATH cfg"
    and dom: "email_domain (email (user rq)) = Inr d" "d \<in> set (AUTH0_ID_TOKEN_DOMAINS cfg)"
    and expired: "fst (is_expired self rq w) = Inr True"
    and stored: "tokens w (user_id (user rq)) = Some token"
    and renewed: "fst (renew_id_token cfg ev (id_token token)
                     (emit (DbGet (user_id (user rq))) (snd (is_expired self rq w)))) = Inr v"
    and new: "truthy v"
  shows "let w3 = snd (renew_id_token cfg ev (id_token token)
                     (emit (DbGet (user_id (user rq))) (snd (is_expired self rq w))));
             token' = \<lparr>id_token = v, expire = t\<rparr>;
             w6 = snd (process_request cfg ev self rq w)
         in (now_plus_timedelta w3 (AUTH0_ID_TOKEN_EXPIRY cfg) = Inr t \<longrightarrow>
               t = now w3 + AUTH0_ID_TOKEN_EXPIRY cfg * 1000000 \<and>
               fst (process_request cfg ev self rq w) = Inr None \<and>
               w6 = logger_debug
                      (''ValidateIdToken: token renewed for '' @ username (user rq))
                      (update_expiration cfg self rq (IdToken_save (user rq) token' w3)) \<and>
               tokens w6 (user_id (user rq)) = Some token' \<and>
               trace w6 = trace w3 @ [DbSave (user_id (user rq)) token'] @
                 (case self of
                    ValidateIdToken \<Rightarrow> []
                  | ValidateIdTokenUsingCache \<Rightarrow>
                      [CacheSet (cache_key rq) (PBool True) (AUTH0_ID_TOKEN_EXPIRY cfg)]) @
                 [LoggerDebug
                    (''ValidateIdToken: token renewed for '' @ username (user rq))]) \<and>
            (now_plus_timedelta w3 (AUTH0_ID_TOKEN_EXPIRY cfg) = Inl e \<longrightarrow>
               e = OverflowError \<and> process_request cfg ev self rq w = (Inl e, w3))"
proof -
  obtain w1 where ie: "is_expired self rq w = (Inr True, w1)"
    using expired by (cases "is_expired self rq w") simp
  have t1: "tokens w1 (user_id (user rq)) = Some token"
    using is_expired_tokens [of self rq w] ie stored by simp
  obtain w3 where rn:
    "renew_id_token cfg ev (id_token token) (emit (DbGet (user_id (user rq))) w1) = (Inr v, w3)"
    using renewed ie
    by (cases "renew_id_token cfg ev (id_token token) (emit (DbGet (user_id (user rq))) w1)")
      simp
  have upd: "token\<lparr>id_token := v, expire := x\<rparr> = \<lparr>id_token = v, expire = x\<rparr>" for x
    by (cases token) simp
  have s1: "snd (is_expired self rq w) = w1"
    using ie by simp
  have s3: "snd (renew_id_token cfg ev (id_token token)
      (emit (DbGet (user_id (user rq))) w1)) = w3"
    using rn by simp
  have saved: "t = now w3 + AUTH0_ID_TOKEN_EXPIRY cfg * 1000000 \<and>
      fst (process_request cfg ev self rq w) = Inr None \<and>
      snd (process_request cfg ev self rq w) =
        logger_debug (''ValidateIdToken: token renewed for '' @ username (user rq))
          (update_expiration cfg self rq
             (IdToken_save (user rq) \<lparr>id_token = v, expire = t\<rparr> w3)) \<and>
      tokens (snd (process_request cfg ev self rq w)) (user_id (user rq)) =
        Some \<lparr>id_token = v, expire = t\<rparr> \<and>
      trace (snd (process_request cfg ev self rq w)) =
        trace w3 @ [DbSave (user_id (user rq)) \<lparr>id_token = v, expire = t\<rparr>] @
          (case self of
             ValidateIdToken \<Rightarrow> []
           | ValidateIdTokenUsingCache \<Rightarrow>
               [CacheSet (cache_key rq) (PBool True) (AUTH0_ID_TOKEN_EXPIRY cfg)]) @
          [LoggerDebug (''ValidateIdToken: token renewed for '' @ username (user rq))]"
    if ok: "now_plus_timedelta w3 (AUTH0_ID_TOKEN_EXPIRY cfg) = Inr t"
  proof -
    have pr: "process_request cfg ev self rq w =
        (Inr None,
         logger_debug (''ValidateIdToken: token renewed for '' @ username (user rq))
           (update_expiration cfg self rq
              (IdToken_save (user rq) \<lparr>id_token = v, expire = t\<rparr> w3)))"
      using gate dom ie t1 rn new ok
      by (simp add: process_request_def exception_paths_def IdToken_objects_get_def
          Let_def upd)
    have val: "t = now w3 + AUTH0_ID_TOKEN_EXPIRY cfg * 1000000"
      using ok by (simp add: now_plus_timedelta_Inr)
    show ?thesis
      unfolding pr using val
      by (cases self) (simp_all add: logger_debug_def IdToken_save_def cache_set_def emit_def)
  qed
  have raised: "e = OverflowError \<and> process_request cfg ev self rq w = (Inl e, w3)"
    if bad: "now_plus_timedelta w3 (AUTH0_ID_TOKEN_EXPIRY cfg) = Inl e"
    using gate dom ie t1 rn new bad now_plus_timedelta_Inl [OF bad]
    by (simp add: process_request_def exception_paths_def IdToken_objects_get_def)
  show ?thesis
    unfolding Let_def s1 s3 using saved raised by blast
qed

theorem renewal_success_saves_token_witness:
  "http_method example_request \<noteq> ''POST'' \<and> \<not> is_ajax example_request \<and>
   is_active (user example_request) \<and> email (user example_request) \<noteq> [] \<and>
   path example_request \<noteq> AUTH0_CALLBACK_PATH example_settings \<and>
   email_domain (email (user example_request)) = Inr ''mozilla.com'' \<and>
   ''mozilla.com'' \<in> set (AUTH0_ID_TOKEN_DOMAINS example_settings) \<and>
   fst (is_expired ValidateIdToken example_request world_expired) = Inr True \<and>
   tokens world_expired (user_id (user example_request)) = Some old_token \<and>
   fst (renew_id_token example_settings (env_answering 3000000 (Inr renewed_response))
          (id_token old_token)
          (emit (DbGet (user_id (user example_request)))
             (snd (is_expired ValidateIdToken example_request world_expired)))) =
     Inr (PStr ''new'') \<and>
   truthy (PStr ''new'') \<and>
   now_plus_timedelta
     (snd (renew_id_token example_settings (env_answering 3000000 (Inr renewed_response))
          (id_token old_token)
          (emit (DbGet (user_id (user example_request)))
             (snd (is_expired ValidateIdToken example_request world_expired)))))
     (AUTH0_ID_TOKEN_EXPIRY example_settings) = Inr 2903000000 \<and>
   fst (process_request example_settings (env_answering 3000000 (Inr renewed_response))
          ValidateIdToken example_request world_expired) = Inr None \<and>
   tokens (snd (process_request example_settings
                  (env_answering 3000000 (Inr renewed_response))
                  ValidateIdToken example_request world_expired)) 7 =
     Some \<lparr>id_token = PStr ''new'', expire = 2903000000\<rparr> \<and>
   trace (snd (process_request example_settings
                  (env_answering 3000000 (Inr renewed_response))
                  ValidateIdToken example_request world_expired)) =
     [DbGet 7, DbGet 7,
      Post ''https://auth.example.com/delegation''
        (delegation_body example_settings (PStr ''old'')) 5,
      DbSave 7 \<lparr>id_token = PStr ''new'', expire = 2903000000\<rparr>,
      LoggerDebug ''ValidateIdToken: token renewed for ann''] \<and>
   path example_request \<noteq> AUTH0_CALLBACK_PATH long_interval_settings \<and>
   ''mozilla.com'' \<in> set (AUTH0_ID_TOKEN_DOMAINS long_interval_settings) \<and>
   fst (is_expired ValidateIdToken example_request world_2024) = Inr True \<and>
   tokens world_2024 (user_id (user example_request)) = Some token_2023 \<and>
   fst (renew_id_token long_interval_settings (env_answering 3000000 (Inr renewed_response))
          (id_token token_2023)
          (emit (DbGet (user_id (user example_request)))
             (snd (is_expired ValidateIdToken example_request world_2024)))) =
     Inr (PStr ''new'') \<and>
   now_plus_timedelta
     (snd (renew_id_token long_interval_settings
          (env_answering 3000000 (Inr renewed_response)) (id_token token_2023)
          (emit (DbGet (user_id (user example_request)))
             (snd (is_expired ValidateIdToken example_request world_2024)))))
     (AUTH0_ID_TOKEN_EXPIRY long_interval_settings) = Inl OverflowError \<and>
   fst (process_request long_interval_settings (env_answering 3000000 (Inr renewed_response))
          ValidateIdToken example_request world_2024) = Inl OverflowError"
proof -
  let ?ev = "env_answering 3000000 (Inr renewed_response)"
  let ?w2 = "emit (DbGet (user_id (user example_request)))
               (snd (is_expired ValidateIdToken example_request world_expired))"
  let ?w3 = "\<lparr>now = 2003000000, tokens = [7 \<mapsto> old_token], cache = Map.empty,
              trace = [DbGet 7, DbGet 7,
                Post ''https://auth.example.com/delegation''
                  (delegation_body example_settings (PStr ''old'')) 5]\<rparr>"
  have rn: "renew_id_token example_settings ?ev (id_token old_token) ?w2 =
      (Inr (PStr ''new''), ?w3)"
    unfolding example_renewed
    by (simp add: example_defs IdToken_objects_get_def emit_def delegation_url_def)
  have r: "fst (renew_id_token example_settings ?ev (id_token old_token) ?w2) =
      Inr (PStr ''new'')"
    using rn by (simp only: fst_conv)
  have s3: "snd (renew_id_token example_settings ?ev (id_token old_token) ?w2) = ?w3"
    using rn by (simp only: snd_conv)
  have t: "truthy (PStr ''new'')"
    by simp
  have e: "now_plus_timedelta ?w3 (AUTH0_ID_TOKEN_EXPIRY example_settings) = Inr 2903000000"
    by (simp add: now_plus_timedelta_Inr example_settings_def datetime_max_def)
  have u: "user_id (user example_request) = 7" "username (user example_request) = ''ann''"
    by (simp_all add: example_request_def example_user_def)
  note saved = renewal_success_saves_token [OF example_gate example_domain
      example_domain_listed example_expired example_stored r t,
      where t = 2903000000 and e = OverflowError, unfolded Let_def s3]
  have first: "fst (process_request example_settings ?ev ValidateIdToken example_request
          world_expired) = Inr None \<and>
        tokens (snd (process_request example_settings ?ev ValidateIdToken example_request
          world_expired)) 7 = Some \<lparr>id_token = PStr ''new'', expire = 2903000000\<rparr> \<and>
        trace (snd (process_request example_settings ?ev ValidateIdToken example_request
          world_expired)) =
          [DbGet 7, DbGet 7,
           Post ''https://auth.example.com/delegation''
             (delegation_body example_settings (PStr ''old'')) 5,
           DbSave 7 \<lparr>id_token = PStr ''new'', expire = 2903000000\<rparr>,
           LoggerDebug ''ValidateIdToken: token renewed for ann'']"
    using saved e unfolding u
    by (simp add: logger_debug_def IdToken_save_def emit_def u)
  let ?v2 = "emit (DbGet (user_id (user example_request)))
               (snd (is_expired ValidateIdToken example_request world_2024))"
  let ?v3 = "snd (renew_id_token long_interval_settings ?ev (id_token token_2023) ?v2)"
  have x1: "fst (is_expired ValidateIdToken example_request world_2024) = Inr True"
    using expired_2024 by (simp only: fst_conv)
  have r2: "fst (renew_id_token long_interval_settings ?ev (id_token token_2023) ?v2) =
      Inr (PStr ''new'')"
    unfolding example_renewed by (simp only: fst_conv)
  have n3: "now ?v3 = 63839664003000000"
    unfolding example_renewed expired_2024
    by (simp add: emit_def world_2024_def)
  have e2: "now_plus_timedelta ?v3 (AUTH0_ID_TOKEN_EXPIRY long_interval_settings) =
      Inl OverflowError"
  proof -
    have k: "AUTH0_ID_TOKEN_EXPIRY long_interval_settings = 300000000000"
      by (simp add: long_interval_settings_def)
    have g: "now_plus_timedelta x 300000000000 = Inl OverflowError"
      if "now x = 63839664003000000" for x
      using that
      by (simp add: now_plus_timedelta_def timedelta_def datetime_add_def
          timedelta_seconds_def datetime_max_def)
    show ?thesis
      unfolding k by (rule g [OF n3])
  qed
  note raised = renewal_success_saves_token [OF example_gate(1-4) long_interval_gate(1)
      example_domain long_interval_gate(2) x1 stored_2024 r2 t,
      where t = 0 and e = OverflowError, unfolded Let_def]
  have second: "fst (process_request long_interval_settings ?ev ValidateIdToken
      example_request world_2024) = Inl OverflowError"
    using raised e2 by simp
  show ?thesis
    using example_gate example_domain example_domain_listed example_expired example_stored
      r t e [folded s3] first long_interval_gate x1 stored_2024 r2 e2 second
    by blast
qed

text \<open>
  C4, as the spec states it, fails for a renewal interval that reaches beyond the last
  year \<^verbatim>\<open>datetime\<close> can hold. On 1 January 2024, with an interval of 300000000000
  seconds, the sample request, whose token has expired, whose record exists and whose
  renewal returns the token \<^verbatim>\<open>new\<close>, ends in \<open>OverflowError\<close>: the record keeps its old
  value and expiration, and nothing follows the renewal call.
\<close>

theorem renewal_interval_overflow:
  "process_request long_interval_settings (env_answering 3000000 (Inr renewed_response))
     ValidateIdToken example_request world_2024 =
     (Inl OverflowError,
      world_2024
        \<lparr>now := 63839664003000000,
         trace := [DbGet 7, DbGet 7,
           Post ''https://auth.example.com/delegation''
             (delegation_body long_interval_settings (PStr ''old'')) 5]\<rparr>)"
  by (simp add: process_request_def exception_paths_def example_domain long_interval_gate
        example_gate expired_2024)
     (simp add: example_defs IdToken_objects_get_def emit_def example_renewed
        [unfolded env_answering_def renewed_response_def] delegation_url_def
        now_plus_timedelta_def timedelta_def datetime_add_def timedelta_seconds_def
        datetime_max_def)

text \<open>
  C7. When the body of the delegation response is not JSON, \<open>renew_id_token\<close> returns
  \<open>None\<close> and raises nothing. For an eligible request whose token the oracle reports
  expired and whose record exists, the middleware then does what it does when the
  provider rejects the renewal with an empty JSON object: the message about an expired
  authentication session, the logout and the redirect to the sign-in view, with the
  record left as it was.
\<close>

theorem unparseable_response_is_rejection:
  assumes post: "requests_post ev (delegation_url cfg) (delegation_body cfg (id_token token))
                   (AUTH0_PATIENCE_TIMEOUT cfg) = (elapsed, Inr resp)"
    and notjson: "body_json resp = None"
  shows "fst (renew_id_token cfg ev (id_token token) w') = Inr PNone \<and>
    (http_method rq \<noteq> ''POST'' \<and> \<not> is_ajax rq \<and> is_active (user rq) \<and>
      email (user rq) \<noteq> [] \<and> path rq \<noteq> AUTH0_CALLBACK_PATH cfg \<and>
      email_domain (email (user rq)) = Inr d \<and> d \<in> set (AUTH0_ID_TOKEN_DOMAINS cfg) \<and>
      fst (is_expired self rq w) = Inr True \<and>
      tokens w (user_id (user rq)) = Some token \<longrightarrow>
      process_request cfg ev self rq w =
        (Inr (Some (HttpResponseRedirect (reverse ev (AUTH0_SIGNIN_VIEW cfg)))),
         (snd (is_expired self rq w))
           \<lparr>now := now (snd (is_expired self rq w)) + int elapsed,
            trace := trace (snd (is_expired self rq w)) @
              [DbGet (user_id (user rq)),
               Post (delegation_url cfg) (delegation_body cfg (id_token token))
                 (AUTH0_PATIENCE_TIMEOUT cfg),
               MessagesError msg_expired_session, Logout]\<rparr>) \<and>
      process_request cfg ev self rq w =
        process_request cfg
          (ev\<lparr>requests_post := \<lambda>url body timeout.
                 (elapsed, Inr (resp\<lparr>body_json := Some (PDict [])\<rparr>))\<rparr>) self rq w) \<and>
    (\<exists>a b. msg_expired_session = a @ ''expired authentication session'' @ b)"
proof -
  have a: "fst (renew_id_token cfg ev (id_token token) w') = Inr PNone"
    using post notjson by (simp add: renew_id_token_def response_json_def)
  have b: "process_request cfg ev self rq w =
        (Inr (Some (HttpResponseRedirect (reverse ev (AUTH0_SIGNIN_VIEW cfg)))),
         (snd (is_expired self rq w))
           \<lparr>now := now (snd (is_expired self rq w)) + int elapsed,
            trace := trace (snd (is_expired self rq w)) @
              [DbGet (user_id (user rq)),
               Post (delegation_url cfg) (delegation_body cfg (id_token token))
                 (AUTH0_PATIENCE_TIMEOUT cfg),
               MessagesError msg_expired_session, Logout]\<rparr>) \<and>
      process_request cfg ev self rq w =
        process_request cfg
          (ev\<lparr>requests_post := \<lambda>url body timeout.
                 (elapsed, Inr (resp\<lparr>body_json := Some (PDict [])\<rparr>))\<rparr>) self rq w"
    if gate: "http_method rq \<noteq> ''POST''" "\<not> is_ajax rq" "is_active (user rq)"
      "email (user rq) \<noteq> []" "path rq \<noteq> AUTH0_CALLBACK_PATH cfg"
    and dom: "email_domain (email (user rq)) = Inr d" "d \<in> set (AUTH0_ID_TOKEN_DOMAINS cfg)"
    and expired: "fst (is_expired self rq w) = Inr True"
    and stored: "tokens w (user_id (user rq)) = Some token"
  proof -
    obtain w1 where ie: "is_expired self rq w = (Inr True, w1)"
      using expired by (cases "is_expired self rq w") simp
    have t1: "tokens w1 (user_id (user rq)) = Some token"
      using is_expired_tokens [of self rq w] ie stored by simp
    show ?thesis
      using gate dom ie t1 post notjson
      by (simp add: process_request_def exception_paths_def IdToken_objects_get_def
          renew_id_token_def response_json_def logout_and_redirect_def logout_def
          messages_error_def emit_def)
  qed
  show ?thesis
    using a b msg_expired_session_mentions by blast
qed

theorem unparseable_response_is_rejection_witness:
  "requests_post (env_answering 1000000 (Inr bad_gateway_response))
     (delegation_url example_settings)
     (delegation_body example_settings (id_token old_token))
     (AUTH0_PATIENCE_TIMEOUT example_settings) = (1000000, Inr bad_gateway_response) \<and>
   body_json bad_gateway_response = None \<and>
   fst (renew_id_token example_settings (env_answering 1000000 (Inr bad_gateway_response))
          (id_token old_token) world_expired) = Inr PNone \<and>
   http_method example_request \<noteq> ''POST'' \<and> \<not> is_ajax example_request \<and>
   is_active (user example_request) \<and> email (user example_request) \<noteq> [] \<and>
   path example_request \<noteq> AUTH0_CALLBACK_PATH example_settings \<and>
   email_domain (email (user example_request)) = Inr ''mozilla.com'' \<and>
   ''mozilla.com'' \<in> set (AUTH0_ID_TOKEN_DOMAINS example_settings) \<and>
   fst (is_expired ValidateIdToken example_request world_expired) = Inr True \<and>
   tokens world_expired (user_id (user example_request)) = Some old_token \<and>
   fst (process_request example_settings (env_answering 1000000 (Inr bad_gateway_response))
          ValidateIdToken example_request world_expired) =
     Inr (Some (HttpResponseRedirect ''/signin/'')) \<and>
   trace (snd (process_request example_settings
                 (env_answering 1000000 (Inr bad_gateway_response))
                 ValidateIdToken example_request world_expired)) =
     [DbGet 7, DbGet 7,
      Post (delegation_url example_settings)
        (delegation_body example_settings (id_token old_token))
        (AUTH0_PATIENCE_TIMEOUT example_settings),
      MessagesError msg_expired_session, Logout]"
proof -
  let ?ev = "env_answering 1000000 (Inr bad_gateway_response)"
  have n: "body_json bad_gateway_response = None"
    by (simp add: bad_gateway_response_def)
  have x: "is_expired ValidateIdToken example_request world_expired =
      (Inr True, world_expired\<lparr>trace := [DbGet 7]\<rparr>)"
    by (simp add: example_defs IdToken_objects_get_def emit_def)
  have x2: "snd (is_expired ValidateIdToken example_request world_expired) =
      world_expired\<lparr>trace := [DbGet 7]\<rparr>"
    using x by (simp only: snd_conv)
  have u: "user_id (user example_request) = 7"
    by (simp add: example_request_def example_user_def)
  note rejected = unparseable_response_is_rejection
    [OF example_post [of 1000000 "Inr bad_gateway_response"] n,
      where w' = world_expired and rq = example_request and d = "''mozilla.com''"
        and self = ValidateIdToken and w = world_expired]
  have r: "fst (renew_id_token example_settings ?ev (id_token old_token) world_expired) =
      Inr PNone"
    using rejected by blast
  have p: "process_request example_settings ?ev ValidateIdToken example_request
      world_expired =
        (Inr (Some (HttpResponseRedirect
           (reverse ?ev (AUTH0_SIGNIN_VIEW example_settings)))),
         (snd (is_expired ValidateIdToken example_request world_expired))
           \<lparr>now := now (snd (is_expired ValidateIdToken example_request world_expired)) +
              int 1000000,
            trace := trace (snd (is_expired ValidateIdToken example_request world_expired)) @
              [DbGet (user_id (user example_request)),
               Post (delegation_url example_settings)
                 (delegation_body example_settings (id_token old_token))
                 (AUTH0_PATIENCE_TIMEOUT example_settings),
               MessagesError msg_expired_session, Logout]\<rparr>)"
    using rejected example_gate example_domain example_domain_listed example_expired
      example_stored
    by blast
  have "fst (process_request example_settings ?ev ValidateIdToken example_request
          world_expired) = Inr (Some (HttpResponseRedirect ''/signin/'')) \<and>
        trace (snd (process_request example_settings ?ev ValidateIdToken example_request
          world_expired)) =
          [DbGet 7, DbGet 7,
           Post (delegation_url example_settings)
             (delegation_body example_settings (id_token old_token))
             (AUTH0_PATIENCE_TIMEOUT example_settings),
           MessagesError msg_expired_session, Logout]"
    unfolding p x2 example_reverse u by simp
  then show ?thesis
    using example_post [of 1000000 "Inr bad_gateway_response"] n r example_gate
      example_domain example_domain_listed example_expired example_stored
    by blast
qed

end
